theory Spec2Isabelle
  imports Main
begin

section \<open>Python values used by the loan scripts\<close>

subsection \<open>Exceptions\<close>

text \<open>
  The exception classes that the scripts raise or catch. All of them are subclasses of
  Python's \<open>Exception\<close>, so a handler \<open>except Exception\<close> catches each of them.
  \<open>IllegalMonthError\<close> of the calendar module is a \<open>ValueError\<close>; \<open>APIError\<close> stands for
  an error answer of the data store's client library.
\<close>

datatype py_exn =
    ValueError | TypeError | KeyError | AttributeError | ZeroDivisionError
  | ConnectionError | TimeoutError | SMTPException | APIError

subsection \<open>Floats\<close>

text \<open>
  A Python float is a binary64 number. \<open>Flt m e\<close> is the number \<open>m * 2 ^ e\<close>; every float
  built below is zero (\<open>Flt 0 0\<close>) or has a 53-bit significand,
  \<open>2 ^ 52 \<le> \<bar>m\<bar> < 2 ^ 53\<close>. Arithmetic computes the exact rational result as a fraction of
  integers and rounds it to the nearest float, ties to even, as the hardware does. The
  exponent is not bounded: infinities, NaN and subnormal numbers are outside the model.
\<close>

datatype pyfloat = Flt int int

fun bit_length :: "nat \<Rightarrow> nat" where
  "bit_length n = (if n = 0 then 0 else Suc (bit_length (n div 2)))"

declare bit_length.simps [simp del]

definition round_half_even :: "int \<Rightarrow> int \<Rightarrow> int" where
  \<comment> \<open>the integer nearest to \<open>p / q\<close> for \<open>0 < q\<close>, a tie going to the even neighbour\<close>
  "round_half_even p q =
     (let f = p div q; r = p mod q in
      if 2 * r < q then f else if q < 2 * r then f + 1 else if even f then f else f + 1)"

definition round_frac :: "int \<Rightarrow> int \<Rightarrow> pyfloat" where
  \<comment> \<open>the float nearest to \<open>p / q\<close> for \<open>0 < q\<close>\<close>
  "round_frac p q =
     (if p = 0 then Flt 0 0 else
      let a = \<bar>p\<bar>;
          k = int (bit_length (nat a)) - int (bit_length (nat q));
          l = (if (if 0 \<le> k then q * 2 ^ nat k \<le> a else q \<le> a * 2 ^ nat (- k))
               then k else k - 1);
          e = l - 52;
          m = (if 0 \<le> e then round_half_even a (q * 2 ^ nat e)
               else round_half_even (a * 2 ^ nat (- e)) q);
          s = (if p < 0 then - 1 else 1)
      in if m = 2 ^ 53 then Flt (s * 2 ^ 52) (e + 1) else Flt (s * m) e)"

fun fnum :: "pyfloat \<Rightarrow> int" where
  "fnum (Flt m e) = (if 0 \<le> e then m * 2 ^ nat e else m)"

fun fden :: "pyfloat \<Rightarrow> int" where
  "fden (Flt m e) = (if 0 \<le> e then 1 else 2 ^ nat (- e))"

definition float_of_int :: "int \<Rightarrow> pyfloat" where
  "float_of_int n = round_frac n 1"

definition fadd :: "pyfloat \<Rightarrow> pyfloat \<Rightarrow> pyfloat" where
  "fadd a b = round_frac (fnum a * fden b + fnum b * fden a) (fden a * fden b)"

definition fmul :: "pyfloat \<Rightarrow> pyfloat \<Rightarrow> pyfloat" where
  "fmul a b = round_frac (fnum a * fnum b) (fden a * fden b)"

definition fdiv :: "pyfloat \<Rightarrow> pyfloat \<Rightarrow> py_exn + pyfloat" where
  "fdiv a b =
     (if fnum b = 0 then Inl ZeroDivisionError
      else Inr (round_frac (fnum a * fden b * sgn (fnum b)) (fden a * \<bar>fnum b\<bar>)))"

definition fsub :: "pyfloat \<Rightarrow> pyfloat \<Rightarrow> pyfloat" where
  "fsub a b = round_frac (fnum a * fden b - fnum b * fden a) (fden a * fden b)"

definition fle :: "pyfloat \<Rightarrow> pyfloat \<Rightarrow> bool" where
  "fle a b = (fnum a * fden b \<le> fnum b * fden a)"

definition flt :: "pyfloat \<Rightarrow> pyfloat \<Rightarrow> bool" where
  "flt a b = (fnum a * fden b < fnum b * fden a)"

definition fzero :: "pyfloat \<Rightarrow> bool" where
  "fzero a = (fnum a = 0)"

definition py_round2 :: "pyfloat \<Rightarrow> pyfloat" where
  \<comment> \<open>\<open>round(x, 2)\<close>: the exact value of \<open>x\<close> is rounded to two decimals, ties to even, and
      the float nearest to that decimal is returned\<close>
  "py_round2 x = round_frac (round_half_even (fnum x * 100) (fden x)) 100"

subsection \<open>Numbers and timestamps as the data store returns them\<close>

text \<open>
  The value found under a key of a loan or payment dict that holds an amount. A JSON number
  is kept as the float that Python makes of it (an integer below \<open>2 ^ 53\<close> is the same
  number); \<open>num m s\<close> is the float of the decimal \<open>m / 10 ^ s\<close>, so \<open>num 299999 2\<close> is
  2999.99. \<open>JNull\<close> is null, \<open>JText\<close> a string that \<open>float()\<close> rejects, and \<open>JAbsent\<close>
  says that the dict has no such key.
\<close>

datatype jnum = JAbsent | JNull | JNum pyfloat | JText

definition num :: "int \<Rightarrow> nat \<Rightarrow> pyfloat" where
  "num m s = round_frac m (10 ^ s)"

fun is_none :: "jnum \<Rightarrow> bool" where
  \<comment> \<open>\<open>key not in d or d[key] is None\<close>\<close>
  "is_none JAbsent = True"
| "is_none JNull = True"
| "is_none _ = False"

fun get_or_zero :: "jnum \<Rightarrow> jnum" where
  \<comment> \<open>\<open>d.get(key, 0)\<close>\<close>
  "get_or_zero JAbsent = JNum (float_of_int 0)"
| "get_or_zero v = v"

fun py_float :: "jnum \<Rightarrow> py_exn + pyfloat" where
  \<comment> \<open>\<open>float(d[key])\<close>\<close>
  "py_float JAbsent = Inl KeyError"
| "py_float JNull = Inl TypeError"
| "py_float JText = Inl ValueError"
| "py_float (JNum x) = Inr x"

fun py_number :: "jnum \<Rightarrow> py_exn + pyfloat" where
  \<comment> \<open>\<open>d[key]\<close> as an operand of a comparison or of arithmetic with a number: null and
      strings raise TypeError\<close>
  "py_number JAbsent = Inl KeyError"
| "py_number (JNum x) = Inr x"
| "py_number _ = Inl TypeError"

definition pbind :: "py_exn + 'a \<Rightarrow> ('a \<Rightarrow> py_exn + 'b) \<Rightarrow> py_exn + 'b" where
  \<comment> \<open>one statement after another: an exception of the first ends the block\<close>
  "pbind m f = (case m of Inl e \<Rightarrow> Inl e | Inr v \<Rightarrow> f v)"

text \<open>
  A \<open>datetime\<close>: calendar date and the time of day in microseconds. A timestamp column
  arrives as a string; \<open>iso_str\<close> keeps the instant the string denotes (\<open>at\<close>) and whether
  \<open>datetime.fromisoformat\<close> accepts its spelling (\<open>well_formed\<close>). Time zones are not
  modelled, so replacing a trailing \<open>Z\<close> by \<open>+00:00\<close> has no counterpart here.
\<close>

record datetime =
  year :: nat
  month :: nat
  day :: nat
  tod :: nat

record iso_str =
  at :: datetime
  well_formed :: bool

definition isleap :: "nat \<Rightarrow> bool" where
  "isleap y = (y mod 4 = 0 \<and> (y mod 100 \<noteq> 0 \<or> y mod 400 = 0))"

definition mdays :: "nat \<Rightarrow> nat" where
  "mdays m = (if m = 2 then 28 else if m \<in> {4, 6, 9, 11} then 30 else 31)"

definition monthrange :: "nat \<Rightarrow> nat \<Rightarrow> py_exn + nat" where
  \<comment> \<open>\<open>calendar.monthrange(year, month)[1]\<close>, the number of days of the month\<close>
  "monthrange y m =
     (if 1 \<le> m \<and> m \<le> 12 then Inr (mdays m + (if m = 2 \<and> isleap y then 1 else 0))
      else Inl ValueError)"

definition valid_datetime :: "datetime \<Rightarrow> bool" where
  "valid_datetime d =
     (1 \<le> year d \<and> year d \<le> 9999 \<and> 1 \<le> month d \<and> month d \<le> 12 \<and> 1 \<le> day d \<and>
      day d \<le> mdays (month d) + (if month d = 2 \<and> isleap (year d) then 1 else 0) \<and>
      tod d < 86400000000)"

definition mk_datetime :: "nat \<Rightarrow> nat \<Rightarrow> nat \<Rightarrow> nat \<Rightarrow> py_exn + datetime" where
  \<comment> \<open>the constructor \<open>datetime(...)\<close>, also behind \<open>replace\<close>: it rejects a date that does
      not exist\<close>
  "mk_datetime y m d t =
     (let r = \<lparr>year = y, month = m, day = d, tod = t\<rparr>
      in if valid_datetime r then Inr r else Inl ValueError)"

definition replace_day :: "datetime \<Rightarrow> nat \<Rightarrow> py_exn + datetime" where
  "replace_day d n = mk_datetime (year d) (month d) n (tod d)"

definition replace_month_year :: "datetime \<Rightarrow> nat \<Rightarrow> nat \<Rightarrow> py_exn + datetime" where
  "replace_month_year d m y = mk_datetime y m (day d) (tod d)"

definition fromisoformat :: "iso_str \<Rightarrow> py_exn + datetime" where
  "fromisoformat s =
     (if well_formed s \<and> valid_datetime (at s) then Inr (at s) else Inl ValueError)"

definition isoformat :: "datetime \<Rightarrow> iso_str" where
  "isoformat d = \<lparr>at = d, well_formed = True\<rparr>"

definition parse_field :: "iso_str option \<Rightarrow> py_exn + datetime" where
  \<comment> \<open>\<open>datetime.fromisoformat(v.replace('Z', '+00:00'))\<close>: null has no \<open>replace\<close>\<close>
  "parse_field v = (case v of None \<Rightarrow> Inl AttributeError | Some s \<Rightarrow> fromisoformat s)"

definition dt_less :: "datetime \<Rightarrow> datetime \<Rightarrow> bool" where
  "dt_less a b =
     (year a < year b \<or> year a = year b \<and>
       (month a < month b \<or> month a = month b \<and>
         (day a < day b \<or> day a = day b \<and> tod a < tod b)))"

definition dt_le :: "datetime \<Rightarrow> datetime \<Rightarrow> bool" where
  "dt_le a b = (\<not> dt_less b a)"

section \<open>Records of the data store and the dicts made of them\<close>

record client =
  client_key :: nat
  first_name :: string
  last_name :: string
  email :: "string option"
  phone :: string

record licence =
  licence_key :: nat
  gun_make :: string
  gun_type :: string
  gun_caliber :: string
  gun_serial :: string

record payment =
  loan_ref :: nat
  payment_date :: "iso_str option"
  amount :: jnum

text \<open>
  A row of table \<open>loans\<close>, which is also the dict that a query returns for it. The primary
  key \<open>loan_id\<close> (column \<open>id\<close>) is never null.
\<close>

record loan_row =
  loan_id :: nat
  invoice_number :: "string option"
  loan_amount :: jnum
  remaining_balance :: jnum
  penalties :: jnum
  status :: string
  payment_due_date :: "iso_str option"
  start_date :: "iso_str option"
  client_id :: "nat option"
  weapon_cost :: jnum
  license_id :: "nat option"

text \<open>
  The dict handed to the templates: the row and the keys that the scripts add to it
  (\<open>client\<close>, \<open>deposit_amount\<close> and the \<open>gun_licence_*\<close> keys; \<open>None\<close> says that the key
  was not added).
\<close>

record loan_dict = loan_row +
  client :: "client option"
  deposit_amount :: "pyfloat option"
  gun_licence :: "licence option"

section \<open>loan_templates.py\<close>

text \<open>
  The rendered page is kept as the values that the template interpolates into it: the
  document type, the date formatted as the payment due date, the number formatted as
  the payment amount, and the payment breakdown (regular payment, missed payments,
  penalty, total due) that is shown when there are penalties.
\<close>

record invoice_email =
  document_type :: string
  due_date_shown :: datetime
  payment_amount_shown :: pyfloat
  breakdown :: "(pyfloat \<times> pyfloat \<times> pyfloat \<times> pyfloat) option"
  reference :: "string option"
  addressee :: client

definition next_month :: "datetime \<Rightarrow> py_exn + datetime" where
  \<comment> \<open>\<open>d.replace(month=d.month+1 if d.month < 12 else 1,
      year=d.year if d.month < 12 else d.year+1)\<close>\<close>
  "next_month d =
     replace_month_year d (if month d < 12 then month d + 1 else 1)
       (if month d < 12 then year d else year d + 1)"

definition create_invoice_email :: "loan_dict \<Rightarrow> bool \<Rightarrow> py_exn + invoice_email" where
  "create_invoice_email loan is_quote =
     (case client loan of None \<Rightarrow> Inl KeyError | Some cl \<Rightarrow>
      pbind (parse_field (payment_due_date loan)) (\<lambda>due_date.
      pbind (monthrange (year due_date) (month due_date)) (\<lambda>last_day.
      pbind (replace_day due_date (min 28 last_day)) (\<lambda>due_date.
      pbind (py_float (loan_amount loan)) (\<lambda>amount.
      pbind (fdiv amount (float_of_int 3)) (\<lambda>third.
      let base_payment = py_round2 third in
      pbind (py_number (get_or_zero (penalties loan))) (\<lambda>pen.
      let missed_payment_amount =
            (if flt (float_of_int 0) pen then fmul pen base_payment else float_of_int 0);
          penalty_amount = fmul missed_payment_amount (num 1 1);
          payment_amount =
            py_round2 (if flt (float_of_int 0) pen
                       then fadd (fadd base_payment missed_payment_amount) penalty_amount
                       else base_payment) in
      pbind (parse_field (start_date loan)) (\<lambda>start.
      pbind (next_month start) (\<lambda>first_payment_month.
      pbind (next_month first_payment_month) (\<lambda>second_payment_month.
      pbind (next_month second_payment_month) (\<lambda>third_payment_month.
      pbind (py_float (remaining_balance loan)) (\<lambda>balance.
      Inr \<lparr>document_type = (if is_quote then ''Statement'' else ''Invoice''),
           due_date_shown = due_date,
           payment_amount_shown = (if fzero pen then base_payment else payment_amount),
           breakdown =
             (if flt (float_of_int 0) pen
              then Some (base_payment, missed_payment_amount, penalty_amount, payment_amount)
              else None),
           reference = invoice_number loan,
           addressee = cl\<rparr>))))))))))))"

section \<open>The world outside the scripts\<close>

text \<open>
  The hosted data store with its four tables, and everything else that a run can touch. Each
  request to the data store or to the mail server may fail: \<open>faults\<close> lists, request
  by request, the exception that the next request raises (\<open>None\<close>: it succeeds; an empty
  list: every further request succeeds). A failed request changes nothing on the other
  side. \<open>requests\<close> counts the requests made, \<open>slept\<close> keeps the arguments of
  \<open>time.sleep\<close> in order, and \<open>outbox\<close> the mails that the server accepted.
\<close>

record db =
  loans :: "loan_row list"
  clients :: "client list"
  loan_payments :: "payment list"
  gun_licences :: "licence list"

record banner =
  banner_due :: "datetime option"
  banner_days :: "int option"
  banner_payment :: pyfloat

datatype page = Page invoice_email "banner option" | AdminPage

record message =
  recipient :: "string option"
  subject :: string
  body :: page

record world =
  store :: db
  faults :: "py_exn option list"
  requests :: nat
  slept :: "int list"
  outbox :: "message list"

type_synonym 'a io = "world \<Rightarrow> (py_exn + 'a) \<times> world"

definition ioreturn :: "'a \<Rightarrow> 'a io" where
  "ioreturn v w = (Inr v, w)"

definition ioraise :: "py_exn \<Rightarrow> 'a io" where
  "ioraise e w = (Inl e, w)"

definition lift :: "py_exn + 'a \<Rightarrow> 'a io" where
  "lift r w = (r, w)"

definition iobind :: "'a io \<Rightarrow> ('a \<Rightarrow> 'b io) \<Rightarrow> 'b io" where
  "iobind m f w = (case m w of (Inl e, w') \<Rightarrow> (Inl e, w') | (Inr v, w') \<Rightarrow> f v w')"

definition iotry :: "'a io \<Rightarrow> (py_exn \<Rightarrow> 'a io) \<Rightarrow> 'a io" where
  \<comment> \<open>\<open>try: m except Exception as e: h e\<close>\<close>
  "iotry m h w = (case m w of (Inl e, w') \<Rightarrow> h e w' | (Inr v, w') \<Rightarrow> (Inr v, w'))"

definition sleep :: "int \<Rightarrow> unit io" where
  "sleep n w = (Inr (), w\<lparr>slept := slept w @ [n]\<rparr>)"

definition remote :: "(world \<Rightarrow> 'a \<times> world) \<Rightarrow> 'a io" where
  \<comment> \<open>one request: it fails as \<open>faults\<close> says, or else takes effect\<close>
  "remote act w =
     (let w0 = w\<lparr>requests := requests w + 1\<rparr> in
      case faults w of
        [] \<Rightarrow> (let (r, w1) = act w0 in (Inr r, w1))
      | None # fs \<Rightarrow> (let (r, w1) = act (w0\<lparr>faults := fs\<rparr>) in (Inr r, w1))
      | Some e # fs \<Rightarrow> (Inl e, w0\<lparr>faults := fs\<rparr>))"

definition select :: "(db \<Rightarrow> 'a) \<Rightarrow> 'a io" where
  \<comment> \<open>\<open>supabase.table(...).select(...)...execute()\<close>: the rows that the filters keep\<close>
  "select q = remote (\<lambda>w. (q (store w), w))"

definition update :: "(db \<Rightarrow> 'a \<times> db) \<Rightarrow> 'a io" where
  \<comment> \<open>\<open>supabase.table(...).update(...)...execute()\<close>\<close>
  "update u = remote (\<lambda>w. let (r, d) = u (store w) in (r, w\<lparr>store := d\<rparr>))"

section \<open>loans.py\<close>

subsection \<open>retry_with_backoff\<close>

text \<open>
  The loop of \<open>retry_with_backoff\<close>, entered with \<open>retries\<close> failures so far. The result is
  \<open>Some\<close> of what \<open>func\<close> returned, or \<open>None\<close> where the Python function falls through to
  \<open>return None\<close>. \<open>exceptions_to_retry\<close> says which exceptions the \<open>except\<close> clause
  matches; any other exception of \<open>func\<close> leaves the function at once.
\<close>

function retry_loop ::
  "'a io \<Rightarrow> nat \<Rightarrow> int \<Rightarrow> int \<Rightarrow> (py_exn \<Rightarrow> bool) \<Rightarrow> nat \<Rightarrow> py_exn option \<Rightarrow> 'a option io"
where
  "retry_loop func max_retries delay backoff_factor exceptions_to_retry retries last_exception w =
     (if retries < max_retries then
        (case func w of
           (Inr v, w1) \<Rightarrow> (Inr (Some v), w1)
         | (Inl e, w1) \<Rightarrow>
             if exceptions_to_retry e then
               (if max_retries \<le> retries + 1 then (Inl e, w1)
                else retry_loop func max_retries delay backoff_factor exceptions_to_retry
                       (retries + 1) (Some e)
                       (snd (sleep (delay * backoff_factor ^ retries) w1)))
             else (Inl e, w1))
      else (case last_exception of Some e \<Rightarrow> (Inl e, w) | None \<Rightarrow> (Inr None, w)))"
  by pat_completeness auto
termination
  by (relation "measure (\<lambda>(f, m, d, b, x, r, l, w). m - r)") auto

declare retry_loop.simps [simp del]

definition retry_with_backoff ::
  "'a io \<Rightarrow> nat \<Rightarrow> int \<Rightarrow> int \<Rightarrow> (py_exn \<Rightarrow> bool) \<Rightarrow> 'a option io" where
  "retry_with_backoff func max_retries initial_delay backoff_factor exceptions_to_retry =
     retry_loop func max_retries initial_delay backoff_factor exceptions_to_retry 0 None"

definition any_exception :: "py_exn \<Rightarrow> bool" where
  \<comment> \<open>the default \<open>exceptions_to_retry=(Exception,)\<close>\<close>
  "any_exception e = True"

definition smtp_exceptions :: "py_exn \<Rightarrow> bool" where
  \<comment> \<open>\<open>(smtplib.SMTPException, ConnectionError, TimeoutError)\<close>\<close>
  "smtp_exceptions e = (e = SMTPException \<or> e = ConnectionError \<or> e = TimeoutError)"

definition retry_db :: "'a io \<Rightarrow> 'a option io" where
  \<comment> \<open>\<open>retry_with_backoff(f, max_retries=3, initial_delay=1)\<close>, as every query and update
      is wrapped\<close>
  "retry_db func = retry_with_backoff func 3 1 2 any_exception"

definition data_of :: "'a option \<Rightarrow> py_exn + 'a" where
  \<comment> \<open>\<open>response.data\<close>: \<open>None\<close> has no attribute \<open>data\<close>\<close>
  "data_of r = (case r of None \<Rightarrow> Inl AttributeError | Some rows \<Rightarrow> Inr rows)"

subsection \<open>Queries and updates\<close>

definition first_day_of_month :: "datetime \<Rightarrow> datetime" where
  \<comment> \<open>\<open>datetime(now.year, now.month, 1)\<close>\<close>
  "first_day_of_month now = \<lparr>year = year now, month = month now, day = 1, tod = 0\<rparr>"

definition col_lt :: "iso_str option \<Rightarrow> datetime \<Rightarrow> bool" where
  \<comment> \<open>filter \<open>.lt(column, t)\<close>; a null column passes no filter\<close>
  "col_lt c t = (case c of None \<Rightarrow> False | Some s \<Rightarrow> dt_less (at s) t)"

definition col_between :: "iso_str option \<Rightarrow> datetime \<Rightarrow> datetime \<Rightarrow> bool" where
  \<comment> \<open>filters \<open>.gte(column, lo).lte(column, hi)\<close>\<close>
  "col_between c lo hi =
     (case c of None \<Rightarrow> False | Some s \<Rightarrow> dt_le lo (at s) \<and> dt_le (at s) hi)"

definition active_past_due :: "datetime \<Rightarrow> db \<Rightarrow> loan_row list" where
  \<comment> \<open>\<open>query_overdue_loans\<close> of \<open>update_overdue_loans\<close>\<close>
  "active_past_due now d =
     filter (\<lambda>l. status l = ''active'' \<and> col_lt (payment_due_date l) now) (loans d)"

definition overdue_loans :: "db \<Rightarrow> loan_row list" where
  \<comment> \<open>\<open>query_overdue_loans\<close> of the other operations\<close>
  "overdue_loans d = filter (\<lambda>l. status l = ''overdue'') (loans d)"

definition query_payments :: "nat \<Rightarrow> datetime \<Rightarrow> db \<Rightarrow> payment list" where
  "query_payments lid now d =
     filter (\<lambda>p. loan_ref p = lid \<and> col_between (payment_date p) (first_day_of_month now) now)
       (loan_payments d)"

definition query_client :: "nat option \<Rightarrow> db \<Rightarrow> client list" where
  "query_client cid d = filter (\<lambda>c. Some (client_key c) = cid) (clients d)"

definition query_licence :: "nat option \<Rightarrow> db \<Rightarrow> licence list" where
  "query_licence lid d = filter (\<lambda>g. Some (licence_key g) = lid) (gun_licences d)"

definition update_loan_status :: "nat \<Rightarrow> db \<Rightarrow> loan_row list \<times> db" where
  \<comment> \<open>\<open>update({'status': 'overdue'}).eq('id', loan_id)\<close>; the answer holds the updated rows\<close>
  "update_loan_status lid d =
     (let rows = map (\<lambda>l. if loan_id l = lid then l\<lparr>status := ''overdue''\<rparr> else l) (loans d)
      in (filter (\<lambda>l. loan_id l = lid) rows, d\<lparr>loans := rows\<rparr>))"

definition update_loan_penalty :: "nat \<Rightarrow> pyfloat \<Rightarrow> db \<Rightarrow> loan_row list \<times> db" where
  \<comment> \<open>\<open>update({'penalties': penalties}).eq('id', loan_id)\<close>\<close>
  "update_loan_penalty lid amt d =
     (let rows = map (\<lambda>l. if loan_id l = lid then l\<lparr>penalties := JNum amt\<rparr> else l) (loans d)
      in (filter (\<lambda>l. loan_id l = lid) rows, d\<lparr>loans := rows\<rparr>))"

subsection \<open>update_overdue_loans\<close>

definition value_or_type_error :: "py_exn \<Rightarrow> bool" where
  \<comment> \<open>\<open>except (ValueError, TypeError)\<close>\<close>
  "value_or_type_error e = (e = ValueError \<or> e = TypeError)"

fun total_payments :: "payment list \<Rightarrow> pyfloat \<Rightarrow> py_exn + pyfloat" where
  \<comment> \<open>the loop that adds \<open>float(payment['amount'])\<close> to \<open>total_payments_this_month\<close>\<close>
  "total_payments [] acc = Inr acc"
| "total_payments (p # ps) acc =
     (case py_float (amount p) of
        Inr a \<Rightarrow> total_payments ps (fadd acc a)
      | Inl e \<Rightarrow> if value_or_type_error e then total_payments ps acc else Inl e)"

definition expected_monthly_payment :: "jnum \<Rightarrow> py_exn + pyfloat" where
  \<comment> \<open>\<open>round(float(loan['loan_amount']) / 3, 2)\<close>\<close>
  "expected_monthly_payment v =
     pbind (py_float v) (\<lambda>a. pbind (fdiv a (float_of_int 3)) (\<lambda>t. Inr (py_round2 t)))"

datatype outcome = Done | Sufficient | Faulty | NoRow

definition caught :: "'a io \<Rightarrow> 'a option io" where
  \<comment> \<open>a block whose \<open>except Exception\<close> handler gives up on the result\<close>
  "caught m = iotry (iobind m (\<lambda>v. ioreturn (Some v))) (\<lambda>e. ioreturn None)"

definition log_client :: "nat option \<Rightarrow> unit io" where
  \<comment> \<open>the client query made for the log after an update; the handler of its \<open>try\<close> block
      catches every exception\<close>
  "log_client cid = iobind (caught (retry_db (select (query_client cid)))) (\<lambda>r. ioreturn ())"

definition overdue_body :: "datetime \<Rightarrow> loan_row \<Rightarrow> outcome io" where
  "overdue_body now loan =
     (if payment_due_date loan = None \<or> is_none (loan_amount loan) then ioreturn Faulty
      else case parse_field (payment_due_date loan) of
        Inl e \<Rightarrow> if value_or_type_error e then ioreturn Faulty else ioraise e
      | Inr due_date \<Rightarrow>
       (case expected_monthly_payment (loan_amount loan) of
          Inl e \<Rightarrow> if value_or_type_error e then ioreturn Faulty else ioraise e
        | Inr expected_payment \<Rightarrow>
            iobind (caught (retry_db (select (query_payments (loan_id loan) now))))
              (\<lambda>answer. case answer of
                 None \<Rightarrow> ioreturn Faulty
               | Some payment_response \<Rightarrow>
                   iobind (lift (data_of payment_response)) (\<lambda>rows.
                   iobind (lift (total_payments rows (float_of_int 0)))
                     (\<lambda>total_payments_this_month.
                   if fle expected_payment total_payments_this_month then ioreturn Sufficient
                   else
                     iotry
                       (iobind (retry_db (update (update_loan_status (loan_id loan))))
                          (\<lambda>update_response.
                        iobind (lift (data_of update_response)) (\<lambda>updated.
                        if updated \<noteq> [] then
                          iobind (log_client (client_id loan)) (\<lambda>u. ioreturn Done)
                        else ioreturn NoRow)))
                       (\<lambda>e. ioreturn Faulty))))))"

fun for_each :: "('a \<Rightarrow> 'b io) \<Rightarrow> 'a list \<Rightarrow> 'b list io" where
  "for_each f [] = ioreturn []"
| "for_each f (x # xs) = iobind (f x) (\<lambda>y. iobind (for_each f xs) (\<lambda>ys. ioreturn (y # ys)))"

definition guarded :: "('a \<Rightarrow> outcome io) \<Rightarrow> 'a \<Rightarrow> outcome io" where
  \<comment> \<open>the \<open>try\<close> block around the body of a loop: an exception counts as an error and the
      loop goes on\<close>
  "guarded f x = iotry (f x) (\<lambda>e. ioreturn Faulty)"

definition tally :: "outcome \<Rightarrow> outcome list \<Rightarrow> nat" where
  "tally c outs = length (filter (\<lambda>x. x = c) outs)"

definition update_overdue_loans :: "datetime \<Rightarrow> nat io" where
  "update_overdue_loans now =
     iotry
       (iobind (caught (retry_db (select (active_past_due now)))) (\<lambda>answer.
          case answer of
            None \<Rightarrow> ioreturn 0
          | Some None \<Rightarrow> ioreturn 0
          | Some (Some rows) \<Rightarrow>
              iobind (for_each (guarded (overdue_body now)) rows) (\<lambda>outs.
              ioreturn (tally Done outs))))
       (\<lambda>e. ioreturn 0)"

subsection \<open>apply_penalties_to_overdue_loans\<close>

fun total_payments_dated ::
  "payment list \<Rightarrow> pyfloat \<Rightarrow> datetime list \<Rightarrow> py_exn + pyfloat \<times> datetime list" where
  \<comment> \<open>the same loop in \<open>apply_penalties_to_overdue_loans\<close>, which also parses the date of
      each payment that it has added\<close>
  "total_payments_dated [] acc dates = Inr (acc, dates)"
| "total_payments_dated (p # ps) acc dates =
     (case py_float (amount p) of
        Inl e \<Rightarrow> if value_or_type_error e then total_payments_dated ps acc dates else Inl e
      | Inr a \<Rightarrow>
         (case parse_field (payment_date p) of
            Inr d \<Rightarrow> total_payments_dated ps (fadd acc a) (dates @ [d])
          | Inl e \<Rightarrow>
              if value_or_type_error e then total_payments_dated ps (fadd acc a) dates
              else Inl e))"

definition penalty_body :: "datetime \<Rightarrow> loan_row \<Rightarrow> outcome io" where
  "penalty_body now loan =
     (if payment_due_date loan = None \<or> is_none (loan_amount loan)
         \<or> is_none (remaining_balance loan) then ioreturn Faulty
      else case parse_field (payment_due_date loan) of
        Inl e \<Rightarrow> if value_or_type_error e then ioreturn Faulty else ioraise e
      | Inr due_date \<Rightarrow>
       (case expected_monthly_payment (loan_amount loan) of
          Inl e \<Rightarrow> if value_or_type_error e then ioreturn Faulty else ioraise e
        | Inr expected_payment \<Rightarrow>
            iobind (caught (retry_db (select (query_payments (loan_id loan) now))))
              (\<lambda>answer. case answer of
                 None \<Rightarrow> ioreturn Faulty
               | Some payment_response \<Rightarrow>
                   iobind (lift (data_of payment_response)) (\<lambda>rows.
                   iobind (lift (total_payments_dated rows (float_of_int 0) []))
                     (\<lambda>(total_payments_this_month, payment_dates).
                   if fle expected_payment total_payments_this_month then ioreturn Sufficient
                   else
                     iotry
                       (iobind (lift (py_float (loan_amount loan))) (\<lambda>amount.
                        iobind (lift (py_float (remaining_balance loan))) (\<lambda>balance.
                        iobind (lift (py_float (get_or_zero (penalties loan))))
                          (\<lambda>current_penalties.
                        let new_penalty = py_round2 (fmul amount (num 1 1));
                            total_penalties = fadd current_penalties new_penalty in
                        iobind (retry_db (update
                                  (update_loan_penalty (loan_id loan) total_penalties)))
                          (\<lambda>update_response.
                        iobind (lift (data_of update_response)) (\<lambda>updated.
                        if updated \<noteq> [] then
                          iobind (log_client (client_id loan)) (\<lambda>u. ioreturn Done)
                        else ioreturn NoRow))))))
                       (\<lambda>e. ioreturn Faulty))))))"

definition is_3rd_of_month :: "datetime \<Rightarrow> bool" where
  "is_3rd_of_month today = (day today = 3)"

definition apply_penalties_to_overdue_loans :: "bool \<Rightarrow> datetime \<Rightarrow> (nat \<times> nat) io" where
  "apply_penalties_to_overdue_loans bypass_date_check now =
     iotry
       (if \<not> bypass_date_check \<and> \<not> is_3rd_of_month now then ioreturn (0, 0)
        else
          iobind (caught (retry_db (select overdue_loans))) (\<lambda>answer.
          case answer of
            None \<Rightarrow> ioreturn (0, 0)
          | Some None \<Rightarrow> ioreturn (0, 0)
          | Some (Some rows) \<Rightarrow>
              if rows = [] then ioreturn (0, 0)
              else
                iobind (for_each (guarded (penalty_body now)) rows) (\<lambda>outs.
                ioreturn (tally Done outs, tally Sufficient outs))))
       (\<lambda>e. ioreturn (0, 0))"

subsection \<open>send_email\<close>

definition send_smtp_email :: "message \<Rightarrow> bool io" where
  \<comment> \<open>one SMTP session that hands the message to the server\<close>
  "send_smtp_email msg = remote (\<lambda>w. (True, w\<lparr>outbox := outbox w @ [msg]\<rparr>))"

definition send_email :: "string option \<Rightarrow> string \<Rightarrow> page \<Rightarrow> unit io" where
  \<comment> \<open>the handler of \<open>send_email\<close> logs the exception and raises it again\<close>
  "send_email recipient_email email_subject email_body =
     iobind
       (retry_with_backoff
          (send_smtp_email
             \<lparr>recipient = recipient_email, subject = email_subject, body = email_body\<rparr>)
          3 2 2 smtp_exceptions)
       (\<lambda>r. ioreturn ())"

definition copy_address :: string where
  "copy_address = ''acum3n@protonmail.com''"

definition send_both :: "string option \<Rightarrow> string \<Rightarrow> page \<Rightarrow> unit io" where
  \<comment> \<open>the mail to the client, its copy to the fixed address, and \<open>time.sleep(1)\<close>\<close>
  "send_both to_client email_subject email_body =
     iobind (send_email to_client email_subject email_body) (\<lambda>u.
     iobind (send_email (Some copy_address) (''COPY: '' @ email_subject) email_body) (\<lambda>u.
     sleep 1))"

definition deliver :: "bool \<Rightarrow> string option \<Rightarrow> string \<Rightarrow> page \<Rightarrow> outcome io" where
  \<comment> \<open>the end of each notification loop: with \<open>send_emails\<close> the mails are sent and a
      failure counts as an error; without it the mail is only logged\<close>
  "deliver send_emails to_client email_subject email_body =
     (if send_emails then
        iotry (iobind (send_both to_client email_subject email_body) (\<lambda>u. ioreturn Done))
          (\<lambda>e. ioreturn Faulty)
      else ioreturn Done)"

subsection \<open>What the notification operations share\<close>

definition fmt :: "string option \<Rightarrow> string" where
  \<comment> \<open>a value inside an f-string\<close>
  "fmt v = (case v of None \<Rightarrow> ''None'' | Some s \<Rightarrow> s)"

definition truthy :: "string option \<Rightarrow> bool" where
  "truthy v = (case v of None \<Rightarrow> False | Some s \<Rightarrow> s \<noteq> [])"

definition truthy_id :: "nat option \<Rightarrow> bool" where
  "truthy_id v = (case v of None \<Rightarrow> False | Some n \<Rightarrow> n \<noteq> 0)"

definition as_dict :: "loan_row \<Rightarrow> loan_dict" where
  \<comment> \<open>the dict of a row before the scripts add keys to it\<close>
  "as_dict loan = loan_row.extend loan
     (loan_dict.fields None None None)"

definition deposit_of :: "loan_dict \<Rightarrow> py_exn + pyfloat" where
  \<comment> \<open>\<open>weapon_cost - loan_amount\<close> if neither is null, and 0 otherwise; the test
      \<open>loan['weapon_cost'] is not None and loan['loan_amount'] is not None\<close> does not look at
      \<open>loan_amount\<close> when \<open>weapon_cost\<close> is null\<close>
  "deposit_of loan =
     (if weapon_cost loan = JAbsent then Inl KeyError
      else if weapon_cost loan = JNull then Inr (float_of_int 0)
      else if loan_amount loan = JAbsent then Inl KeyError
      else if loan_amount loan = JNull then Inr (float_of_int 0)
      else
        pbind (py_number (weapon_cost loan)) (\<lambda>c.
        pbind (py_number (loan_amount loan)) (\<lambda>a. Inr (fsub c a))))"

definition add_licence :: "loan_dict \<Rightarrow> loan_dict io" where
  \<comment> \<open>the licence query, for a loan whose \<open>license_id\<close> is set; the first row found fills
      the \<open>gun_licence_*\<close> keys\<close>
  "add_licence loan =
     (if truthy_id (license_id loan) then
        iobind (retry_db (select (query_licence (license_id loan)))) (\<lambda>licence_response.
        iobind (lift (data_of licence_response)) (\<lambda>found.
        ioreturn (case found of [] \<Rightarrow> loan | g # gs \<Rightarrow> loan\<lparr>gun_licence := Some g\<rparr>)))
      else ioreturn loan)"

definition normalized_due_date :: "iso_str option \<Rightarrow> py_exn + datetime" where
  \<comment> \<open>the due date parsed and moved to day \<open>min(28, last_day)\<close> of its month\<close>
  "normalized_due_date v =
     pbind (parse_field v) (\<lambda>due_date.
     pbind (monthrange (year due_date) (month due_date)) (\<lambda>last_day.
     replace_day due_date (min 28 last_day)))"

definition plus_28_days :: "datetime \<Rightarrow> datetime" where
  \<comment> \<open>\<open>now + timedelta(days=28)\<close>, for a date before the last month of year 9999\<close>
  "plus_28_days d =
     (let n = mdays (month d) + (if month d = 2 \<and> isleap (year d) then 1 else 0) in
      if day d + 28 \<le> n then d\<lparr>day := day d + 28\<rparr>
      else if month d < 12 then d\<lparr>month := month d + 1, day := day d + 28 - n\<rparr>
      else d\<lparr>year := year d + 1, month := 1, day := day d + 28 - n\<rparr>)"

definition payments_so_far :: "nat \<Rightarrow> datetime \<Rightarrow> pyfloat io" where
  \<comment> \<open>the payments of this month added up, where a failed query counts as no payments\<close>
  "payments_so_far lid now =
     iobind (caught (retry_db (select (query_payments lid now)))) (\<lambda>answer.
     case answer of
       Some (Some rows) \<Rightarrow> lift (total_payments rows (float_of_int 0))
     | _ \<Rightarrow> ioreturn (float_of_int 0))"

definition expected_or_zero :: "jnum \<Rightarrow> py_exn + pyfloat" where
  \<comment> \<open>the expected payment, or 0 after a ValueError or TypeError\<close>
  "expected_or_zero v =
     (case expected_monthly_payment v of
        Inr x \<Rightarrow> Inr x
      | Inl e \<Rightarrow> if value_or_type_error e then Inr (float_of_int 0) else Inl e)"

definition find_client :: "loan_dict \<Rightarrow> (loan_dict option) io" where
  \<comment> \<open>the client query of \<open>notify_overdue_loans\<close> and \<open>send_due_date_reminders\<close>; \<open>None\<close>
      where the loop counts an error and goes on\<close>
  "find_client loan =
     iobind (caught (retry_db (select (query_client (client_id loan))))) (\<lambda>answer.
     case answer of
       None \<Rightarrow> ioreturn None
     | Some client_response \<Rightarrow>
         (case data_of client_response of
            Inl e \<Rightarrow> ioreturn None
          | Inr [] \<Rightarrow> ioreturn None
          | Inr (c # cs) \<Rightarrow>
              if \<not> truthy (email c) then ioreturn None
              else ioreturn (Some (loan\<lparr>client := Some c\<rparr>))))"

definition enrich :: "loan_dict \<Rightarrow> (loan_dict option) io" where
  \<comment> \<open>the first steps of the two loops: required fields, client, deposit, licence\<close>
  "enrich loan =
     (if invoice_number loan = None \<or> is_none (loan_amount loan)
         \<or> is_none (remaining_balance loan) \<or> client_id loan = None then ioreturn None
      else
        iobind (find_client loan) (\<lambda>found.
        case found of
          None \<Rightarrow> ioreturn None
        | Some loan1 \<Rightarrow>
            let deposit = (case deposit_of loan1 of
                             Inr x \<Rightarrow> x | Inl e \<Rightarrow> float_of_int 0);
                loan2 = loan1\<lparr>deposit_amount := Some deposit\<rparr> in
            iobind (iotry (add_licence loan2) (\<lambda>e. ioreturn loan2)) (\<lambda>loan3.
            ioreturn (Some loan3))))"

subsection \<open>notify_overdue_loans\<close>

definition full_name :: "client \<Rightarrow> string" where
  "full_name c = first_name c @ '' '' @ last_name c"

definition subject_line :: "string \<Rightarrow> loan_dict \<Rightarrow> client \<Rightarrow> string" where
  \<comment> \<open>the subject: a prefix, the invoice number and the name of the client\<close>
  "subject_line prefix loan c =
     prefix @ '': '' @ fmt (invoice_number loan) @ '' - '' @ full_name c"

definition overdue_notice :: "bool \<Rightarrow> datetime \<Rightarrow> loan_dict \<Rightarrow> outcome io" where
  \<comment> \<open>the loop body from the expected payment on; the banner put before the page header
      names the expected payment\<close>
  "overdue_notice send_emails now loan =
     iobind (lift (expected_or_zero (loan_amount loan))) (\<lambda>expected_payment.
     iobind (payments_so_far (loan_id loan) now) (\<lambda>total_payments_this_month.
     case client loan of
       None \<Rightarrow> ioraise KeyError
     | Some c \<Rightarrow>
         (case create_invoice_email loan True of
              Inl e \<Rightarrow> ioreturn Faulty
            | Inr email_body \<Rightarrow>
                deliver send_emails (email c) (subject_line ''OVERDUE PAYMENT NOTICE'' loan c)
                  (Page email_body
                     (Some \<lparr>banner_due = None, banner_days = None,
                            banner_payment = expected_payment\<rparr>)))))"

definition overdue_notice_body :: "bool \<Rightarrow> datetime \<Rightarrow> loan_row \<Rightarrow> outcome io" where
  "overdue_notice_body send_emails now row =
     iobind (enrich (as_dict row)) (\<lambda>found.
     case found of
       None \<Rightarrow> ioreturn Faulty
     | Some loan \<Rightarrow>
         (case normalized_due_date (payment_due_date loan) of
            Inr due_date \<Rightarrow>
              overdue_notice send_emails now
                (loan\<lparr>payment_due_date := Some (isoformat due_date)\<rparr>)
          | Inl e \<Rightarrow>
              if value_or_type_error e then
                overdue_notice send_emails now
                  (loan\<lparr>payment_due_date := Some (isoformat (plus_28_days now))\<rparr>)
              else ioraise e))"

definition notify_overdue_loans :: "bool \<Rightarrow> datetime \<Rightarrow> nat io" where
  "notify_overdue_loans send_emails now =
     iotry
       (iobind (caught (retry_db (select overdue_loans))) (\<lambda>answer.
          case answer of
            None \<Rightarrow> ioreturn 0
          | Some None \<Rightarrow> ioreturn 0
          | Some (Some rows) \<Rightarrow>
              if rows = [] then ioreturn 0
              else
                iobind (for_each (guarded (overdue_notice_body send_emails now)) rows)
                  (\<lambda>outs. ioreturn (tally Done outs))))
       (\<lambda>e. ioreturn 0)"

subsection \<open>get_loans_due_next_month\<close>

definition next_month_start :: "datetime \<Rightarrow> py_exn + datetime" where
  "next_month_start now =
     (if month now = 12 then mk_datetime (year now + 1) 1 1 0
      else mk_datetime (year now) (month now + 1) 1 0)"

definition next_month_end :: "datetime \<Rightarrow> py_exn + datetime" where
  \<comment> \<open>the last day of the month of \<open>start\<close>, at 23:59:59\<close>
  "next_month_end start =
     pbind (monthrange (year start) (month start)) (\<lambda>last_day.
     mk_datetime (year start) (month start) last_day 86399000000)"

definition active_due_between :: "datetime \<Rightarrow> datetime \<Rightarrow> db \<Rightarrow> loan_row list" where
  "active_due_between lo hi d =
     filter (\<lambda>l. status l = ''active'' \<and> col_between (payment_due_date l) lo hi) (loans d)"

definition due_next_month_body :: "loan_row \<Rightarrow> (loan_dict option) io" where
  \<comment> \<open>the loop body; \<open>None\<close> for a loan without client row, which is left out\<close>
  "due_next_month_body row =
     iobind (retry_db (select (query_client (client_id row)))) (\<lambda>client_response.
     iobind (lift (data_of client_response)) (\<lambda>found.
     case found of
       [] \<Rightarrow> ioreturn None
     | c # cs \<Rightarrow>
         let loan = (as_dict row)\<lparr>client := Some c\<rparr> in
         iobind (lift (deposit_of loan)) (\<lambda>deposit.
         iobind (add_licence (loan\<lparr>deposit_amount := Some deposit\<rparr>)) (\<lambda>loan.
         iobind (lift (normalized_due_date (payment_due_date loan))) (\<lambda>due_date.
         ioreturn (Some (loan\<lparr>payment_due_date := Some (isoformat due_date)\<rparr>)))))))"

definition get_loans_due_next_month :: "datetime \<Rightarrow> (loan_dict list) io" where
  "get_loans_due_next_month now =
     iotry
       (iobind (lift (next_month_start now)) (\<lambda>start.
        iobind (lift (next_month_end start)) (\<lambda>finish.
        iobind (retry_db (select (active_due_between start finish))) (\<lambda>response.
        iobind (lift (data_of response)) (\<lambda>rows.
        iobind (for_each due_next_month_body rows) (\<lambda>found.
        ioreturn (List.map_filter id found)))))))
       (\<lambda>e. ioreturn [])"

subsection \<open>send_payment_reminders\<close>

definition is_22nd_of_month :: "datetime \<Rightarrow> bool" where
  "is_22nd_of_month today = (day today = 22)"

definition is_28th_of_month :: "datetime \<Rightarrow> bool" where
  "is_28th_of_month today = (day today = 28)"

definition payment_reminder_body :: "bool \<Rightarrow> loan_dict \<Rightarrow> outcome io" where
  "payment_reminder_body send_emails loan =
     (case client loan of
        None \<Rightarrow> ioreturn Faulty
      | Some c \<Rightarrow>
          if invoice_number loan = None \<or> is_none (loan_amount loan)
             \<or> is_none (remaining_balance loan) then ioreturn Faulty
          else if \<not> truthy (email c) then ioreturn Faulty
          else (case expected_monthly_payment (loan_amount loan) of
            Inl e \<Rightarrow> (if value_or_type_error e then ioreturn Faulty else ioraise e)
          | Inr expected_payment \<Rightarrow>
              iobind
                (lift (case parse_field (payment_due_date loan) of
                         Inr due_date \<Rightarrow> Inr (Some due_date)
                       | Inl e \<Rightarrow> if value_or_type_error e then Inr None else Inl e))
                (\<lambda>formatted_due_date.
              (case create_invoice_email loan True of
                   Inl e \<Rightarrow> ioreturn Faulty
                 | Inr email_body \<Rightarrow>
                     deliver send_emails (email c) (subject_line ''Payment Reminder'' loan c)
                       (Page email_body
                          (Some \<lparr>banner_due = formatted_due_date, banner_days = None,
                                 banner_payment = expected_payment\<rparr>))))))"

definition send_payment_reminders :: "bool \<Rightarrow> datetime \<Rightarrow> nat io" where
  "send_payment_reminders send_emails now =
     iotry
       (if \<not> is_22nd_of_month now then ioreturn 0
        else
          iobind (get_loans_due_next_month now) (\<lambda>found.
          if found = [] then ioreturn 0
          else
            iobind (for_each (guarded (payment_reminder_body send_emails)) found)
              (\<lambda>outs. ioreturn (tally Done outs))))
       (\<lambda>e. ioreturn 0)"

subsection \<open>send_due_date_reminders\<close>

definition toordinal :: "datetime \<Rightarrow> int" where
  \<comment> \<open>\<open>date.toordinal()\<close>: the number of the day, counted from 1 January of year 1\<close>
  "toordinal d =
     (let y = int (year d) - 1 in
      y * 365 + y div 4 - y div 100 + y div 400
        + int (sum_list (map mdays [1..<month d]))
        + (if 2 < month d \<and> isleap (year d) then 1 else 0)
        + int (day d))"

definition active_due_soon :: "datetime \<Rightarrow> datetime \<Rightarrow> db \<Rightarrow> loan_row list" where
  "active_due_soon now start d = active_due_between now start d"

definition due_date_body :: "bool \<Rightarrow> datetime \<Rightarrow> loan_row \<Rightarrow> outcome io" where
  "due_date_body send_emails now row =
     iobind (enrich (as_dict row)) (\<lambda>found.
     case found of
       None \<Rightarrow> ioreturn Faulty
     | Some loan \<Rightarrow>
         iobind
           (lift (case parse_field (payment_due_date loan) of
                    Inr due_date \<Rightarrow>
                      Inr (Some due_date, toordinal due_date - toordinal now)
                  | Inl e \<Rightarrow> if value_or_type_error e then Inr (None, 3) else Inl e))
           (\<lambda>(formatted_due_date, days_until_due).
         iobind (lift (expected_or_zero (loan_amount loan))) (\<lambda>expected_payment.
         iobind (payments_so_far (loan_id loan) now) (\<lambda>total_payments_this_month.
         case client loan of
           None \<Rightarrow> ioraise KeyError
         | Some c \<Rightarrow>
             (case create_invoice_email loan True of
                  Inl e \<Rightarrow> ioreturn Faulty
                | Inr email_body \<Rightarrow>
                    deliver send_emails (email c) (subject_line ''PAYMENT DUE SOON'' loan c)
                      (Page email_body
                         (Some \<lparr>banner_due = formatted_due_date,
                                banner_days = Some days_until_due,
                                banner_payment = expected_payment\<rparr>)))))))"

definition send_due_date_reminders :: "bool \<Rightarrow> datetime \<Rightarrow> nat io" where
  "send_due_date_reminders send_emails now =
     iotry
       (if \<not> is_28th_of_month now then ioreturn 0
        else
          iobind (lift (next_month_start now)) (\<lambda>start.
          iobind (lift (next_month_end start)) (\<lambda>finish.
          iobind (caught (retry_db (select (active_due_soon now start)))) (\<lambda>answer.
          case answer of
            None \<Rightarrow> ioreturn 0
          | Some None \<Rightarrow> ioreturn 0
          | Some (Some rows) \<Rightarrow>
              if rows = [] then ioreturn 0
              else
                iobind (for_each (guarded (due_date_body send_emails now)) rows)
                  (\<lambda>outs. ioreturn (tally Done outs))))))
       (\<lambda>e. ioreturn 0)"

subsection \<open>main\<close>






text \<open>
  The body of the loop of \<open>main\<close> over the loans due next month. Next to the outcome it
  returns the document type that the loop chose for the loan, if it came that far.
\<close>

definition statement_subject :: "bool \<Rightarrow> bool \<Rightarrow> loan_dict \<Rightarrow> client \<Rightarrow> string" where
  "statement_subject test_mode is_statement loan c =
     (if test_mode then ''[TEST] '' else []) @
     (if is_statement then ''Gunnery Payment Due Quote: '' @ fmt (invoice_number loan)
      else ''Loan Paid: Invoice '' @ fmt (invoice_number loan) @ '' - '' @ full_name c)"

definition statement_body :: "bool \<Rightarrow> bool \<Rightarrow> loan_dict \<Rightarrow> (string option \<times> outcome) io" where
  "statement_body test_mode send_emails loan =
     (case client loan of
        None \<Rightarrow> ioreturn (None, NoRow)
      | Some c \<Rightarrow>
          if invoice_number loan = None \<or> is_none (loan_amount loan)
             \<or> is_none (remaining_balance loan) then ioreturn (None, NoRow)
          else
            iobind (lift (py_number (remaining_balance loan))) (\<lambda>balance.
            let is_statement = flt (float_of_int 0) balance;
                document_type = (if is_statement then ''Statement'' else ''Invoice'');
                email_subject = statement_subject test_mode is_statement loan c in
            (case create_invoice_email loan is_statement of
               Inl e \<Rightarrow> ioreturn (Some document_type, NoRow)
             | Inr email_body \<Rightarrow>
                 if send_emails then
                   iotry
                     (iobind (send_both (email c) email_subject (Page email_body None))
                        (\<lambda>u. ioreturn (Some document_type, Done)))
                     (\<lambda>e. ioreturn (Some document_type, Faulty))
                 else ioreturn (Some document_type, Done))))"

definition statement_guarded ::
  "bool \<Rightarrow> bool \<Rightarrow> loan_dict \<Rightarrow> (string option \<times> outcome) io" where
  "statement_guarded test_mode send_emails loan =
     iotry (statement_body test_mode send_emails loan) (\<lambda>e. ioreturn (None, Faulty))"



definition connection_test :: "unit io" where
  \<comment> \<open>the count query at the start of \<open>main\<close>, made without \<open>retry_with_backoff\<close>; any
      failure is raised again as ConnectionError\<close>
  "connection_test =
     iotry (iobind (select (\<lambda>d. length (loans d))) (\<lambda>n. ioreturn ()))
       (\<lambda>e. ioraise ConnectionError)"






section \<open>Sample data\<close>

text \<open>
  A loan of 9000.00 as the templates receive it, with the given penalties value and a start
  date in 2025 on the given month and day; its payment is due on 31 May 2025.
\<close>

definition sample_client :: client where
  "sample_client =
     \<lparr>client_key = 7, first_name = ''Ann'', last_name = ''Bok'',
      email = Some ''ann@example.org'', phone = ''021''\<rparr>"

definition sample_loan :: "jnum \<Rightarrow> nat \<Rightarrow> nat \<Rightarrow> loan_dict" where
  "sample_loan pen m d =
     \<lparr>loan_id = 1, invoice_number = Some ''INV-1'', loan_amount = JNum (num 900000 2),
      remaining_balance = JNum (num 900000 2), penalties = pen, status = ''active'',
      payment_due_date =
        Some \<lparr>at = \<lparr>year = 2025, month = 5, day = 31, tod = 0\<rparr>, well_formed = True\<rparr>,
      start_date =
        Some \<lparr>at = \<lparr>year = 2025, month = m, day = d, tod = 0\<rparr>, well_formed = True\<rparr>,
      client_id = Some 7, weapon_cost = JNum (num 1200000 2), license_id = None,
      client = Some sample_client, deposit_amount = Some (num 300000 2),
      gun_licence = None\<rparr>"


text \<open>
  A data store without rows, a world that has made no request yet, with the given store and
  the given failures ahead, and 10 o'clock on a day of April 2025.
\<close>

definition empty_db :: db where
  "empty_db = \<lparr>loans = [], clients = [], loan_payments = [], gun_licences = []\<rparr>"

definition world_of :: "db \<Rightarrow> py_exn option list \<Rightarrow> world" where
  "world_of d fs = \<lparr>store = d, faults = fs, requests = 0, slept = [], outbox = []\<rparr>"

definition april :: "nat \<Rightarrow> datetime" where
  "april d = \<lparr>year = 2025, month = 4, day = d, tod = 36000000000\<rparr>"

text \<open>
  The same loan with an amount of 100.00, a third of which is not a number of cents.
\<close>

definition small_loan :: "jnum \<Rightarrow> loan_dict" where
  "small_loan pen = (sample_loan pen 1 15)\<lparr>loan_amount := JNum (num 10000 2)\<rparr>"

text \<open>
  A row of table \<open>loans\<close> for the client above: its key, status, amount and remaining balance
  in cents, and the month and day of 2025 on which the payment is due. A payment of the given
  number of cents made for a loan on a day of April 2025.
\<close>

definition row :: "nat \<Rightarrow> string \<Rightarrow> int \<Rightarrow> int \<Rightarrow> nat \<Rightarrow> nat \<Rightarrow> loan_row" where
  "row i st cents left m d =
     \<lparr>loan_id = i, invoice_number = Some ''INV-1'', loan_amount = JNum (num cents 2),
      remaining_balance = JNum (num left 2), penalties = JNum (float_of_int 0), status = st,
      payment_due_date =
        Some \<lparr>at = \<lparr>year = 2025, month = m, day = d, tod = 0\<rparr>, well_formed = True\<rparr>,
      start_date =
        Some \<lparr>at = \<lparr>year = 2025, month = 1, day = 15, tod = 0\<rparr>, well_formed = True\<rparr>,
      client_id = Some 7, weapon_cost = JNull, license_id = None\<rparr>"


section \<open>Arithmetic of the amounts used in the examples\<close>

lemmas round_eval = round_frac_def round_half_even_def Let_def bit_length.simps

lemma float_0: "float_of_int 0 = Flt 0 0"
  by (simp add: float_of_int_def round_frac_def)

lemma float_3: "float_of_int 3 = Flt 6755399441055744 (- 51)"
  by (simp add: float_of_int_def round_eval)

lemma num_tenth: "num 1 1 = Flt 7205759403792794 (- 56)"
  by (simp add: num_def round_eval)

lemma num_tenth_Suc: "num 1 (Suc 0) = Flt 7205759403792794 (- 56)"
  using num_tenth by simp

lemma num_2: "num 2 0 = Flt 4503599627370496 (- 51)"
  by (simp add: num_def round_eval)

lemma num_9000: "num 900000 2 = Flt 4947802324992000 (- 39)"
  by (simp add: num_def round_eval)

lemma num_3000: "num 300000 2 = Flt 6597069766656000 (- 41)"
  by (simp add: num_def round_eval)

lemma num_9600: "num 960000 2 = Flt 5277655813324800 (- 39)"
  by (simp add: num_def round_eval)

lemma third_9000:
  "fdiv (Flt 4947802324992000 (- 39)) (Flt 6755399441055744 (- 51)) =
     Inr (Flt 6597069766656000 (- 41))"
  by (simp add: fdiv_def round_eval)

lemma round_3000: "py_round2 (Flt 6597069766656000 (- 41)) = Flt 6597069766656000 (- 41)"
  by (simp add: py_round2_def round_eval)

lemma expected_9000: "expected_monthly_payment (JNum (num 900000 2)) = Inr (num 300000 2)"
  by (simp add: expected_monthly_payment_def pbind_def num_9000 float_3 num_3000 third_9000
      round_3000)

lemma missed_2:
  "fmul (Flt 4503599627370496 (- 51)) (Flt 6597069766656000 (- 41)) =
     Flt 6597069766656000 (- 40)"
  by (simp add: fmul_def round_eval)

lemma surcharge_2:
  "fmul (Flt 6597069766656000 (- 40)) (Flt 7205759403792794 (- 56)) =
     Flt 5277655813324800 (- 43)"
  by (simp add: fmul_def round_eval)

lemma sum_2a:
  "fadd (Flt 6597069766656000 (- 41)) (Flt 6597069766656000 (- 40)) =
     Flt 4947802324992000 (- 39)"
  by (simp add: fadd_def round_eval)

lemma sum_2b:
  "fadd (Flt 4947802324992000 (- 39)) (Flt 5277655813324800 (- 43)) =
     Flt 5277655813324800 (- 39)"
  by (simp add: fadd_def round_eval)

lemma round_9600: "py_round2 (Flt 5277655813324800 (- 39)) = Flt 5277655813324800 (- 39)"
  by (simp add: py_round2_def round_eval)

lemma num_100: "num 10000 2 = Flt 7036874417766400 (- 46)"
  by (simp add: num_def round_eval)

lemma num_3333: "num 3333 2 = Flt 4690780486883082 (- 47)"
  by (simp add: num_def round_eval)

lemma num_6999: "num 6999 2 = Flt 4925108404994703 (- 46)"
  by (simp add: num_def round_eval)

lemma float_1: "float_of_int 1 = Flt 4503599627370496 (- 52)"
  by (simp add: float_of_int_def round_eval)

lemma third_100:
  "fdiv (Flt 7036874417766400 (- 46)) (Flt 6755399441055744 (- 51)) =
     Inr (Flt 4691249611844267 (- 47))"
  by (simp add: fdiv_def round_eval)

lemma round_3333: "py_round2 (Flt 4691249611844267 (- 47)) = Flt 4690780486883082 (- 47)"
  by (simp add: py_round2_def round_eval)

lemma missed_1:
  "fmul (Flt 4503599627370496 (- 52)) (Flt 4690780486883082 (- 47)) =
     Flt 4690780486883082 (- 47)"
  by (simp add: fmul_def round_eval)

lemma surcharge_1:
  "fmul (Flt 4690780486883082 (- 47)) (Flt 7205759403792794 (- 56)) =
     Flt 7505248779012932 (- 51)"
  by (simp add: fmul_def round_eval)

lemma sum_1a:
  "fadd (Flt 4690780486883082 (- 47)) (Flt 4690780486883082 (- 47)) =
     Flt 4690780486883082 (- 46)"
  by (simp add: fadd_def round_eval)

lemma sum_1b:
  "fadd (Flt 4690780486883082 (- 46)) (Flt 7505248779012932 (- 51)) =
     Flt 4925319511227236 (- 46)"
  by (simp add: fadd_def round_eval)

lemma round_6999: "py_round2 (Flt 4925319511227236 (- 46)) = Flt 4925108404994703 (- 46)"
  by (simp add: py_round2_def round_eval)

lemmas small_eval = float_0 float_1 float_3 num_100 num_3333 num_6999 num_tenth_Suc third_100
  round_3333 missed_1 surcharge_1 sum_1a sum_1b round_6999 flt_def fzero_def

lemmas date_eval = parse_field_def fromisoformat_def valid_datetime_def mdays_def isleap_def
  monthrange_def replace_day_def mk_datetime_def next_month_def replace_month_year_def

lemmas amount_eval = float_0 float_3 num_9000 num_3000 num_2 num_tenth_Suc num_9600
  third_9000 round_3000 missed_2 surcharge_2 sum_2a sum_2b round_9600 flt_def fzero_def

section \<open>The payment amount shown by create_invoice_email\<close>

lemma parse_field_valid: "parse_field v = Inr d \<Longrightarrow> valid_datetime d"
  by (auto simp: parse_field_def fromisoformat_def split: option.splits if_splits)

lemma normalized_due_date_28:
  assumes "parse_field v = Inr d"
  shows "normalized_due_date v = Inr (d\<lparr>day := 28\<rparr>)"
proof -
  have v: "valid_datetime d" using assms by (rule parse_field_valid)
  then have "monthrange (year d) (month d) =
      Inr (mdays (month d) + (if month d = 2 \<and> isleap (year d) then 1 else 0))"
    by (simp add: monthrange_def valid_datetime_def)
  moreover have "28 \<le> mdays (month d)"
    by (simp add: mdays_def)
  ultimately show ?thesis
    using v assms
    by (simp add: normalized_due_date_def pbind_def replace_day_def mk_datetime_def
        valid_datetime_def min_def)
qed

lemma schedule_28:
  assumes "valid_datetime s" and "day s \<le> 28" and "year s < 9999"
  shows "\<exists>a b c. next_month s = Inr a \<and> next_month a = Inr b \<and> next_month b = Inr c"
proof -
  have 1: "mk_datetime y m (day s) (tod s) = Inr \<lparr>year = y, month = m, day = day s, tod = tod s\<rparr>"
    if "1 \<le> y" "y \<le> 9999" "1 \<le> m" "m \<le> 12" for y m
    using that assms by (auto simp: mk_datetime_def valid_datetime_def mdays_def Let_def)
  have m: "1 \<le> month s" "month s \<le> 12" "1 \<le> year s"
    using assms by (simp_all add: valid_datetime_def)
  consider "month s \<le> 9" | "month s = 10" | "month s = 11" | "month s = 12"
    using m by linarith
  then show ?thesis
    using m assms(3)
    by cases (simp_all add: next_month_def replace_month_year_def 1)
qed

lemma fdiv_3: "\<exists>third. fdiv a (float_of_int 3) = Inr third"
  by (simp add: fdiv_def float_of_int_def round_frac_def round_half_even_def Let_def
      bit_length.simps)

text \<open>
  C3. For a loan with a client, a due date and a start date that parse (the start date on
  day 28 at most, so that the three schedule months exist), an amount and a balance that
  \<open>float()\<close> accepts and a \<open>penalties\<close> key that is missing or holds a number,
  \<open>create_invoice_email\<close> renders a page, and the number shown on it as the payment amount
  is \<open>base_payment = round(loan_amount / 3, 2)\<close> if \<open>penalties\<close> is missing or 0, and
  \<open>round(base_payment + penalties * base_payment + (penalties * base_payment) * 0.1, 2)\<close>
  if it is above 0: the penalties value multiplies the base payment. (Below 0 the page shows
  \<open>round(base_payment, 2)\<close>.) With a loan of 100.00 the page shows 33.33, and 69.99 when
  \<open>penalties\<close> is 1.
\<close>

theorem create_invoice_email_payment_amount:
  assumes "client loan = Some c"
    and "parse_field (payment_due_date loan) = Inr due"
    and "py_float (loan_amount loan) = Inr amt"
    and "penalties loan = JAbsent \<or> penalties loan = JNum pen"
    and "parse_field (start_date loan) = Inr start"
    and "day start \<le> 28" and "year start < 9999"
    and "py_float (remaining_balance loan) = Inr balance"
  shows "\<exists>em third. create_invoice_email loan is_quote = Inr em \<and>
     fdiv amt (float_of_int 3) = Inr third \<and>
     payment_amount_shown em =
       (let base_payment = py_round2 third in
        if penalties loan = JAbsent \<or> fzero pen then base_payment
        else if flt (float_of_int 0) pen then
          py_round2 (fadd (fadd base_payment (fmul pen base_payment))
                       (fmul (fmul pen base_payment) (num 1 1)))
        else py_round2 base_payment)"
proof -
  obtain third where third: "fdiv amt (float_of_int 3) = Inr third"
    using fdiv_3 by blast
  have due: "pbind (parse_field (payment_due_date loan)) (\<lambda>due_date.
       pbind (monthrange (year due_date) (month due_date)) (\<lambda>last_day.
       pbind (replace_day due_date (min 28 last_day)) f)) = f (due\<lparr>day := 28\<rparr>)"
    for f :: "datetime \<Rightarrow> py_exn + invoice_email"
    using normalized_due_date_28 [OF assms(2)] assms(2)
    by (auto simp: normalized_due_date_def pbind_def split: sum.splits)
  obtain a b c where sched: "next_month start = Inr a" "next_month a = Inr b"
      "next_month b = Inr c"
    using schedule_28 [OF parse_field_valid [OF assms(5)] assms(6,7)] by blast
  have z: "fzero (float_of_int 0)" "\<not> flt (float_of_int 0) (float_of_int 0)"
    by (simp_all add: fzero_def flt_def float_of_int_def round_frac_def)
  show ?thesis
    using assms(4)
  proof
    assume "penalties loan = JAbsent"
    then show ?thesis
      unfolding create_invoice_email_def due
      by (simp add: assms(1,3,5,8) third sched pbind_def Let_def z)
  next
    assume "penalties loan = JNum pen"
    then show ?thesis
      unfolding create_invoice_email_def due
      by (simp add: assms(1,3,5,8) third sched pbind_def Let_def)
  qed
qed


theorem create_invoice_email_payment_amount_witness:
  "(\<exists>em. create_invoice_email (small_loan JAbsent) True = Inr em \<and>
          payment_amount_shown em = num 3333 2) \<and>
   (\<exists>em. create_invoice_email (small_loan (JNum (float_of_int 1))) True = Inr em \<and>
          payment_amount_shown em = num 6999 2) \<and>
   (\<exists>em. create_invoice_email (sample_loan (JNum (num 2 0)) 1 15) False = Inr em \<and>
          payment_amount_shown em = num 960000 2)"
proof -
  have small: "client (small_loan p) = Some sample_client"
    "parse_field (payment_due_date (small_loan p)) =
       Inr \<lparr>year = 2025, month = 5, day = 31, tod = 0\<rparr>"
    "py_float (loan_amount (small_loan p)) = Inr (num 10000 2)"
    "parse_field (start_date (small_loan p)) =
       Inr \<lparr>year = 2025, month = 1, day = 15, tod = 0\<rparr>"
    "py_float (remaining_balance (small_loan p)) = Inr (num 900000 2)"
    "penalties (small_loan p) = p" for p
    by (simp_all add: small_loan_def sample_loan_def date_eval)
  have big: "client (sample_loan p 1 15) = Some sample_client"
    "parse_field (payment_due_date (sample_loan p 1 15)) =
       Inr \<lparr>year = 2025, month = 5, day = 31, tod = 0\<rparr>"
    "py_float (loan_amount (sample_loan p 1 15)) = Inr (num 900000 2)"
    "parse_field (start_date (sample_loan p 1 15)) =
       Inr \<lparr>year = 2025, month = 1, day = 15, tod = 0\<rparr>"
    "py_float (remaining_balance (sample_loan p 1 15)) = Inr (num 900000 2)"
    "penalties (sample_loan p 1 15) = p" for p
    by (simp_all add: sample_loan_def date_eval)
  have t1: "fdiv (num 10000 2) (float_of_int 3) = Inr third \<longleftrightarrow>
      third = Flt 4691249611844267 (- 47)" for third
    by (auto simp: small_eval)
  have t2: "fdiv (num 900000 2) (float_of_int 3) = Inr third \<longleftrightarrow>
      third = Flt 6597069766656000 (- 41)" for third
    by (auto simp: amount_eval)
  note s1 = small [of JAbsent]
  note s2 = small [of "JNum (float_of_int 1)"]
  note s3 = big [of "JNum (num 2 0)"]
  have 1: "\<exists>em. create_invoice_email (small_loan JAbsent) True = Inr em \<and>
          payment_amount_shown em = num 3333 2"
    using create_invoice_email_payment_amount
      [OF s1(1) s1(2) s1(3) _ s1(4) _ _ s1(5), where pen = "float_of_int 0"
        and is_quote = True]
    by (simp add: small t1 small_eval Let_def)
  have 2: "\<exists>em. create_invoice_email (small_loan (JNum (float_of_int 1))) True = Inr em \<and>
          payment_amount_shown em = num 6999 2"
    using create_invoice_email_payment_amount
      [OF s2(1) s2(2) s2(3) _ s2(4) _ _ s2(5), where pen = "float_of_int 1"
        and is_quote = True]
    by (simp add: small t1 small_eval Let_def)
  have 3: "\<exists>em. create_invoice_email (sample_loan (JNum (num 2 0)) 1 15) False = Inr em \<and>
          payment_amount_shown em = num 960000 2"
    using create_invoice_email_payment_amount
      [OF s3(1) s3(2) s3(3) _ s3(4) _ _ s3(5), where pen = "num 2 0" and is_quote = False]
    by (simp add: big t2 amount_eval num_tenth Let_def del: One_nat_def)
  show ?thesis
    using 1 2 3 by blast
qed

section \<open>The batch operations return counts\<close>

lemma iotry_returns: "\<exists>v w'. iotry m (\<lambda>e. ioreturn d) w = (Inr v, w')"
  by (cases "m w") (auto simp: iotry_def ioreturn_def split: sum.splits)

lemma remote_fault:
  "faults w = Some e # fs \<Longrightarrow>
   remote act w = (Inl e, w\<lparr>requests := requests w + 1, faults := fs\<rparr>)"
  by (simp add: remote_def Let_def)

lemma retry_three_faults:
  assumes "faults w = Some e1 # Some e2 # Some e3 # fs"
  shows "retry_db (remote act) w =
     (Inl e3, w\<lparr>requests := requests w + 3, faults := fs, slept := slept w @ [1, 2]\<rparr>)"
  unfolding retry_db_def retry_with_backoff_def
  apply (subst retry_loop.simps)
  apply (simp add: remote_fault assms any_exception_def sleep_def)
  apply (subst retry_loop.simps)
  apply (simp add: remote_fault assms any_exception_def sleep_def)
  apply (subst retry_loop.simps)
  apply (simp add: remote_fault assms any_exception_def sleep_def)
  done

lemma caught_three_faults:
  assumes "faults w = Some e1 # Some e2 # Some e3 # fs"
  shows "caught (retry_db (select q)) w =
     (Inr None, w\<lparr>requests := requests w + 3, faults := fs, slept := slept w @ [1, 2]\<rparr>)"
  by (simp add: caught_def iotry_def iobind_def ioreturn_def select_def
      retry_three_faults [OF assms])

lemma update_overdue_down:
  assumes "faults w = Some e1 # Some e2 # Some e3 # fs"
  shows "fst (update_overdue_loans now w) = Inr 0"
  by (simp add: update_overdue_loans_def iotry_def iobind_def ioreturn_def
      caught_three_faults [OF assms])

lemma notify_down:
  assumes "faults w = Some e1 # Some e2 # Some e3 # fs"
  shows "fst (notify_overdue_loans s now w) = Inr 0"
  by (simp add: notify_overdue_loans_def iotry_def iobind_def ioreturn_def
      caught_three_faults [OF assms])

lemma penalties_down:
  assumes "faults w = Some e1 # Some e2 # Some e3 # fs"
  shows "fst (apply_penalties_to_overdue_loans b now w) = Inr (0, 0)"
  by (simp add: apply_penalties_to_overdue_loans_def iotry_def iobind_def ioreturn_def
      caught_three_faults [OF assms])

lemma due_next_month_down:
  assumes "faults w = Some e1 # Some e2 # Some e3 # fs"
  shows "fst (get_loans_due_next_month now w) = Inr []"
  by (simp add: get_loans_due_next_month_def iotry_def iobind_def ioreturn_def lift_def
      select_def retry_three_faults [OF assms] split: sum.splits)

lemma reminders_down:
  assumes "faults w = Some e1 # Some e2 # Some e3 # fs"
  shows "fst (send_payment_reminders s now w) = Inr 0"
  using due_next_month_down [OF assms, of now]
  by (cases "get_loans_due_next_month now w")
     (simp add: send_payment_reminders_def iotry_def iobind_def ioreturn_def)

lemma due_date_down:
  assumes "faults w = Some e1 # Some e2 # Some e3 # fs"
  shows "fst (send_due_date_reminders s now w) = Inr 0"
  by (simp add: send_due_date_reminders_def iotry_def iobind_def ioreturn_def lift_def
      caught_three_faults [OF assms] split: sum.splits)

text \<open>
  C10. None of \<open>update_overdue_loans\<close>, \<open>notify_overdue_loans\<close>,
  \<open>apply_penalties_to_overdue_loans\<close>, \<open>send_payment_reminders\<close> and
  \<open>send_due_date_reminders\<close> raises: in every world, whatever fails inside, each returns
  a count. When the data store fails three times in a row, so that the first query is given
  up after its retries, each returns 0, or the pair (0, 0).
\<close>

theorem batch_operations_never_raise:
  "(\<exists>n w'. update_overdue_loans now w = (Inr n, w')) \<and>
   (\<exists>n w'. notify_overdue_loans send_emails now w = (Inr n, w')) \<and>
   (\<exists>n w'. apply_penalties_to_overdue_loans bypass now w = (Inr n, w')) \<and>
   (\<exists>n w'. send_payment_reminders send_emails now w = (Inr n, w')) \<and>
   (\<exists>n w'. send_due_date_reminders send_emails now w = (Inr n, w')) \<and>
   fst (update_overdue_loans now (w\<lparr>faults := Some e1 # Some e2 # Some e3 # fs\<rparr>)) = Inr 0 \<and>
   fst (notify_overdue_loans send_emails now (w\<lparr>faults := Some e1 # Some e2 # Some e3 # fs\<rparr>))
     = Inr 0 \<and>
   fst (apply_penalties_to_overdue_loans bypass now
          (w\<lparr>faults := Some e1 # Some e2 # Some e3 # fs\<rparr>)) = Inr (0, 0) \<and>
   fst (send_payment_reminders send_emails now (w\<lparr>faults := Some e1 # Some e2 # Some e3 # fs\<rparr>))
     = Inr 0 \<and>
   fst (send_due_date_reminders send_emails now (w\<lparr>faults := Some e1 # Some e2 # Some e3 # fs\<rparr>))
     = Inr 0"
proof -
  have f: "faults (w\<lparr>faults := Some e1 # Some e2 # Some e3 # fs\<rparr>) = Some e1 # Some e2 # Some e3 # fs"
    by simp
  have 1: "\<exists>n w'. update_overdue_loans now w = (Inr n, w')"
    unfolding update_overdue_loans_def by (rule iotry_returns)
  have 2: "\<exists>n w'. notify_overdue_loans send_emails now w = (Inr n, w')"
    unfolding notify_overdue_loans_def by (rule iotry_returns)
  have 3: "\<exists>n w'. apply_penalties_to_overdue_loans bypass now w = (Inr n, w')"
    unfolding apply_penalties_to_overdue_loans_def by (rule iotry_returns)
  have 4: "\<exists>n w'. send_payment_reminders send_emails now w = (Inr n, w')"
    unfolding send_payment_reminders_def by (rule iotry_returns)
  have 5: "\<exists>n w'. send_due_date_reminders send_emails now w = (Inr n, w')"
    unfolding send_due_date_reminders_def by (rule iotry_returns)
  show ?thesis
    using 1 2 3 4 5 update_overdue_down [OF f] notify_down [OF f] penalties_down [OF f]
      reminders_down [OF f] due_date_down [OF f]
    by simp
qed

theorem batch_operations_never_raise_witness:
  "fst (update_overdue_loans (april 3)
          ((world_of empty_db [])
             \<lparr>faults := [Some TimeoutError, Some TimeoutError, Some APIError, None]\<rparr>)) = Inr 0 \<and>
   fst (apply_penalties_to_overdue_loans False (april 3)
          ((world_of empty_db [])
             \<lparr>faults := [Some TimeoutError, Some TimeoutError, Some APIError, None]\<rparr>)) = Inr (0, 0) \<and>
   (\<exists>n w'. send_due_date_reminders True (april 3) (world_of empty_db []) = (Inr n, w'))"
  using batch_operations_never_raise
    [of "april 3" "world_of empty_db []" True False TimeoutError TimeoutError APIError "[None]"]
  by simp

section \<open>retry_with_backoff\<close>

lemma retry_loop_last:
  "retry_loop func 3 d b p (Suc (Suc 0)) l w =
     (case func w of (Inr v, w1) \<Rightarrow> (Inr (Some v), w1) | (Inl e, w1) \<Rightarrow> (Inl e, w1))"
  by (subst retry_loop.simps) (simp split: prod.splits sum.splits)

lemma retry_loop_second:
  "retry_loop func 3 d b p (Suc 0) l w =
     (case func w of
        (Inr v, w1) \<Rightarrow> (Inr (Some v), w1)
      | (Inl e, w1) \<Rightarrow>
          if p e then retry_loop func 3 d b p (Suc (Suc 0)) (Some e) (w1\<lparr>slept := slept w1 @ [d * b]\<rparr>)
          else (Inl e, w1))"
  by (subst retry_loop.simps) (simp add: sleep_def split: prod.splits sum.splits)

lemma retry_loop_first:
  "retry_loop func 3 d b p 0 l w =
     (case func w of
        (Inr v, w1) \<Rightarrow> (Inr (Some v), w1)
      | (Inl e, w1) \<Rightarrow>
          if p e then retry_loop func 3 d b p (Suc 0) (Some e) (w1\<lparr>slept := slept w1 @ [d]\<rparr>)
          else (Inl e, w1))"
  by (subst retry_loop.simps) (simp add: sleep_def split: prod.splits sum.splits)

lemmas retry_3 = retry_with_backoff_def retry_loop_first retry_loop_second retry_loop_last

lemma select_fault:
  "faults w = Some e # fs \<Longrightarrow>
   select q w = (Inl e, w\<lparr>requests := requests w + 1, faults := fs\<rparr>)"
  by (simp add: select_def remote_def Let_def)


lemma select_ok:
  "faults w = None # fs \<Longrightarrow>
   select q w = (Inr (q (store w)), w\<lparr>requests := requests w + 1, faults := fs\<rparr>)"
  by (simp add: select_def remote_def Let_def)

text \<open>
  C8, as the code has it. With \<open>max_retries = 3\<close>, \<open>retry_with_backoff\<close> calls \<open>func\<close> at
  most three times. It returns the result of the first call that succeeds, at once. An
  exception that \<open>exceptions_to_retry\<close> does not match leaves the function at once. After an
  exception that it matches, the function sleeps \<open>initial_delay\<close> seconds before the second
  call and \<open>initial_delay * backoff_factor\<close> seconds before the third; the exception of the
  third call is raised, matched or not, without a further sleep. The queries and updates of
  the data store are wrapped with delays of 1 and 2 seconds and retry after every
  exception, whatever its class; a mail is sent with delays of 2 and 4 seconds and retried
  after \<open>SMTPException\<close>, \<open>ConnectionError\<close> and \<open>TimeoutError\<close> only.
\<close>

theorem retry_with_backoff_three_attempts:
  "(func w = (Inr v, w1) \<longrightarrow>
      retry_with_backoff func 3 d b p w = (Inr (Some v), w1)) \<and>
   (func w = (Inl e1, w1) \<and> \<not> p e1 \<longrightarrow>
      retry_with_backoff func 3 d b p w = (Inl e1, w1)) \<and>
   (func w = (Inl e1, w1) \<and> p e1 \<and>
    func (w1\<lparr>slept := slept w1 @ [d]\<rparr>) = (Inr v, w2) \<longrightarrow>
      retry_with_backoff func 3 d b p w = (Inr (Some v), w2)) \<and>
   (func w = (Inl e1, w1) \<and> p e1 \<and>
    func (w1\<lparr>slept := slept w1 @ [d]\<rparr>) = (Inl e2, w2) \<and> \<not> p e2 \<longrightarrow>
      retry_with_backoff func 3 d b p w = (Inl e2, w2)) \<and>
   (func w = (Inl e1, w1) \<and> p e1 \<and>
    func (w1\<lparr>slept := slept w1 @ [d]\<rparr>) = (Inl e2, w2) \<and> p e2 \<and>
    func (w2\<lparr>slept := slept w2 @ [d * b]\<rparr>) = (Inr v, w3) \<longrightarrow>
      retry_with_backoff func 3 d b p w = (Inr (Some v), w3)) \<and>
   (func w = (Inl e1, w1) \<and> p e1 \<and>
    func (w1\<lparr>slept := slept w1 @ [d]\<rparr>) = (Inl e2, w2) \<and> p e2 \<and>
    func (w2\<lparr>slept := slept w2 @ [d * b]\<rparr>) = (Inl e3, w3) \<longrightarrow>
      retry_with_backoff func 3 d b p w = (Inl e3, w3)) \<and>
   retry_db func = retry_with_backoff func 3 1 2 (\<lambda>e. True) \<and>
   send_email recipient_email email_subject email_body =
     iobind
       (retry_with_backoff
          (send_smtp_email
             \<lparr>recipient = recipient_email, subject = email_subject, body = email_body\<rparr>)
          3 2 2 (\<lambda>e. e = SMTPException \<or> e = ConnectionError \<or> e = TimeoutError))
       (\<lambda>r. ioreturn ())"
proof -
  have "any_exception = (\<lambda>e. True)"
    by (rule ext) (simp add: any_exception_def)
  moreover have "smtp_exceptions =
      (\<lambda>e. e = SMTPException \<or> e = ConnectionError \<or> e = TimeoutError)"
    by (rule ext) (simp add: smtp_exceptions_def)
  ultimately show ?thesis
    by (simp add: retry_3 retry_db_def send_email_def)
qed

theorem retry_with_backoff_three_attempts_witness:
  "retry_db (select loans) (world_of empty_db [Some TimeoutError, Some ConnectionError, None])
     = (Inr (Some []), (world_of empty_db [])\<lparr>requests := 3, slept := [1, 2]\<rparr>) \<and>
   retry_with_backoff (select loans) 3 2 2 smtp_exceptions
       (world_of empty_db [Some TimeoutError, Some ValueError, None])
     = (Inl ValueError, (world_of empty_db [None])\<lparr>requests := 2, slept := [2]\<rparr>)"
proof -
  have 1: "retry_db (select loans)
       (world_of empty_db [Some TimeoutError, Some ConnectionError, None])
     = (Inr (Some []), (world_of empty_db [])\<lparr>requests := 3, slept := [1, 2]\<rparr>)"
    using retry_with_backoff_three_attempts
      [where func = "select loans" and d = 1 and b = 2 and p = "\<lambda>e. True"
        and w = "world_of empty_db [Some TimeoutError, Some ConnectionError, None]"
        and ?e1.0 = TimeoutError and ?e2.0 = ConnectionError and v = "[]"
        and ?w1.0 = "(world_of empty_db [Some ConnectionError, None])\<lparr>requests := 1\<rparr>"
        and ?w2.0 = "(world_of empty_db [None])\<lparr>requests := 2, slept := [1]\<rparr>"
        and ?w3.0 = "(world_of empty_db [])\<lparr>requests := 3, slept := [1, 2]\<rparr>"]
    by (simp add: select_fault select_ok world_of_def empty_db_def)
  have 2: "retry_with_backoff (select loans) 3 2 2 smtp_exceptions
       (world_of empty_db [Some TimeoutError, Some ValueError, None])
     = (Inl ValueError, (world_of empty_db [None])\<lparr>requests := 2, slept := [2]\<rparr>)"
    using retry_with_backoff_three_attempts
      [where func = "select loans" and d = 2 and b = 2 and p = smtp_exceptions
        and w = "world_of empty_db [Some TimeoutError, Some ValueError, None]"
        and ?e1.0 = TimeoutError and ?e2.0 = ValueError
        and ?w1.0 = "(world_of empty_db [Some ValueError, None])\<lparr>requests := 1\<rparr>"
        and ?w2.0 = "(world_of empty_db [None])\<lparr>requests := 2, slept := [2]\<rparr>"]
    by (simp add: select_fault select_ok world_of_def empty_db_def smtp_exceptions_def)
  show ?thesis
    using 1 2 by simp
qed

text \<open>
  Against C8 as the specification states it: a query that fails with an \<open>APIError\<close>, a
  \<open>ValueError\<close> and a \<open>KeyError\<close>, none of them a transport or timeout error, is retried
  each time, so three requests are made; and the connection test at the start of \<open>main\<close>
  is a request made without \<open>retry_with_backoff\<close>: one timeout ends it.
\<close>

theorem retry_db_retries_every_exception:
  "retry_db (select loans) (world_of empty_db [Some APIError, Some ValueError, Some KeyError])
     = (Inl KeyError, (world_of empty_db [])\<lparr>requests := 3, slept := [1, 2]\<rparr>) \<and>
   connection_test (world_of empty_db [Some TimeoutError])
     = (Inl ConnectionError, (world_of empty_db [])\<lparr>requests := 1\<rparr>)"
  by (simp add: retry_db_def retry_3 any_exception_def select_fault connection_test_def
      iotry_def iobind_def ioraise_def world_of_def empty_db_def)

section \<open>Start dates that the payment schedule cannot follow\<close>

lemma pbind_Inr: "pbind (Inr v) f = f v"
  by (simp add: pbind_def)

lemma pbind_Inl: "pbind (Inl e) f = Inl e"
  by (simp add: pbind_def)

lemma next_month_short:
  assumes "monthrange (if month s < 12 then year s else year s + 1)
             (if month s < 12 then month s + 1 else 1) = Inr n"
    and "n < day s"
  shows "next_month s = Inl ValueError"
  using assms
  by (auto simp: next_month_def replace_month_year_def mk_datetime_def valid_datetime_def
      monthrange_def Let_def split: if_splits)

lemma create_invoice_email_cases:
  assumes "next_month s = Inl ValueError" and "parse_field (start_date loan) = Inr s"
  shows "(\<exists>e. create_invoice_email loan is_quote = Inl e) \<and>
     (client loan \<noteq> None \<and> parse_field (payment_due_date loan) = Inr due \<and>
      py_float (loan_amount loan) = Inr amt \<and>
      (penalties loan = JAbsent \<or> penalties loan = JNum pen) \<longrightarrow>
        create_invoice_email loan is_quote = Inl ValueError)"
proof -
  have fails: "\<exists>e. pbind m f = Inl e" if "\<And>v. m = Inr v \<Longrightarrow> \<exists>e. f v = Inl e"
    for m :: "py_exn + 'a" and f :: "'a \<Rightarrow> py_exn + invoice_email"
    using that by (cases m) (auto simp: pbind_def)
  have tail: "pbind (parse_field (start_date loan)) (\<lambda>start. pbind (next_month start) f)
      = Inl ValueError" for f :: "datetime \<Rightarrow> py_exn + invoice_email"
    by (simp add: assms pbind_def)
  have 1: "\<exists>e. create_invoice_email loan is_quote = Inl e"
    unfolding create_invoice_email_def Let_def
    by (cases "client loan") (auto intro!: fails simp: tail)
  have 2: "create_invoice_email loan is_quote = Inl ValueError"
    if "client loan \<noteq> None" "parse_field (payment_due_date loan) = Inr due"
      "py_float (loan_amount loan) = Inr amt"
      "penalties loan = JAbsent \<or> penalties loan = JNum pen"
  proof -
    have due: "pbind (parse_field (payment_due_date loan)) (\<lambda>due_date.
         pbind (monthrange (year due_date) (month due_date)) (\<lambda>last_day.
         pbind (replace_day due_date (min 28 last_day)) f)) = f (due\<lparr>day := 28\<rparr>)"
      for f :: "datetime \<Rightarrow> py_exn + invoice_email"
      using normalized_due_date_28 [OF that(2)] that(2)
      by (auto simp: normalized_due_date_def pbind_def split: sum.splits)
    obtain third where third: "fdiv amt (float_of_int 3) = Inr third"
      using fdiv_3 by blast
    have "\<exists>c. client loan = Some c"
      using that(1) by auto
    then obtain c where c: "client loan = Some c" ..
    from that(4) show ?thesis
      unfolding create_invoice_email_def due
      by (auto simp: c that(3) third tail pbind_Inr Let_def)
  qed
  show ?thesis
    using 1 2 by blast
qed

lemma statement_skipped:
  assumes "\<And>q. \<exists>e. create_invoice_email loan q = Inl e"
  shows "\<exists>doc out. statement_guarded test_mode send_emails loan w = (Inr (doc, out), w) \<and>
     out \<noteq> Done"
proof -
  obtain e where "create_invoice_email loan
      (case py_number (remaining_balance loan) of Inr b \<Rightarrow> flt (float_of_int 0) b
       | Inl x \<Rightarrow> False) = Inl e"
    using assms by blast
  then show ?thesis
    by (cases "client loan"; cases "py_number (remaining_balance loan)")
       (auto simp: statement_guarded_def statement_body_def iotry_def iobind_def ioreturn_def
          lift_def Let_def)
qed

text \<open>
  C9, as the code has it. If the start date of a loan parses and falls on a day that the
  following month does not have (the 31st before a month of 30 days, the 29th, 30th or 31st
  of January before a February of 28 days), \<open>create_invoice_email\<close> renders no page: the first
  \<open>replace\<close> of the payment schedule raises ValueError, and that is the exception raised
  whenever the steps before it succeed. The loop of \<open>main\<close> then skips the loan: it sends
  nothing and does not count it.
\<close>

theorem create_invoice_email_short_month:
  assumes "parse_field (start_date loan) = Inr start"
    and "monthrange (if month start < 12 then year start else year start + 1)
           (if month start < 12 then month start + 1 else 1) = Inr n"
    and "n < day start"
  shows "(\<exists>e. create_invoice_email loan is_quote = Inl e) \<and>
     (client loan \<noteq> None \<and> parse_field (payment_due_date loan) = Inr due \<and>
      py_float (loan_amount loan) = Inr amt \<and>
      (penalties loan = JAbsent \<or> penalties loan = JNum pen) \<longrightarrow>
        create_invoice_email loan is_quote = Inl ValueError) \<and>
     (\<exists>doc out. statement_guarded test_mode send_emails loan w = (Inr (doc, out), w) \<and>
        out \<noteq> Done)"
proof -
  note short = next_month_short [OF assms(2,3)]
  have "\<exists>e. create_invoice_email loan q = Inl e" for q
    using create_invoice_email_cases [OF short assms(1)] by blast
  then show ?thesis
    using create_invoice_email_cases [OF short assms(1)] statement_skipped by blast
qed

theorem create_invoice_email_short_month_witness:
  "create_invoice_email (sample_loan JAbsent 1 31) True = Inl ValueError \<and>
   (\<exists>doc out. statement_guarded False True (sample_loan JAbsent 1 31) (world_of empty_db [])
       = (Inr (doc, out), world_of empty_db []) \<and> out \<noteq> Done)"
  using create_invoice_email_short_month
    [where loan = "sample_loan JAbsent 1 31" and n = 28 and is_quote = True
      and start = "\<lparr>year = 2025, month = 1, day = 31, tod = 0\<rparr>"
      and due = "\<lparr>year = 2025, month = 5, day = 31, tod = 0\<rparr>" and amt = "num 900000 2"
      and test_mode = False and send_emails = True and w = "world_of empty_db []"]
  by (simp add: sample_loan_def date_eval del: One_nat_def)

text \<open>
  Against C9 as the specification states it: 30 March is a day 30 of a month whose following
  month, April, has fewer days, and yet 30 April, 30 May and 30 June exist, so the page is
  rendered.
\<close>

theorem create_invoice_email_renders_30_march:
  "\<exists>em. create_invoice_email (sample_loan JAbsent 3 30) True = Inr em"
  by (simp add: create_invoice_email_def sample_loan_def pbind_Inr Let_def date_eval
      amount_eval)

section \<open>Statements and invoices\<close>



























end
